theory Spec2Isabelle
  imports Main "HOL-Library.Sublist" "HOL-Library.AList"
begin

section \<open>The distribution pipeline of mesonbuild/mdist.py\<close>

text \<open>
  The module packages a source tree into release archives, verifies the first archive by
  a full build from it, and writes a digest file beside every archive. It is a sequence
  of file-system operations and child processes, so the embedding is a state-and-exception
  monad over an explicit world: a file system, the process environment, a chronological
  trace of what the program printed, warned and launched, and a counter of the external
  calls made so far. Whatever the program does not compute itself (child processes, the
  archive and compression libraries, the digest, the loaded build description) is a field
  of the record \<open>ext\<close>, about which nothing is assumed unless a theorem says so.
\<close>

subsection \<open>Exceptions\<close>

text \<open>
  \<open>SystemExit\<close> is what \<open>sys.exit\<close> raises: with a message (exit status 1) or with a
  status. \<open>OSError\<close> carries the name of the subclass raised; \<open>except OSError\<close> catches
  every one of them. \<open>Raised\<close> is any other exception of a library or a child launch.
\<close>

datatype exn =
    SystemExit_msg string
  | SystemExit_code int
  | AssertionError
  | OSError string
  | CalledProcessError int "string list"
  | KeyError string
  | IndexError
  | NameError
  | TypeError
  | Raised string

subsection \<open>Strings and paths (posixpath)\<close>

text \<open>\<open>s.split(c)\<close> for a one-character separator: always at least one piece.\<close>

fun split_on :: "char \<Rightarrow> string \<Rightarrow> string list" where
  "split_on c [] = [[]]"
| "split_on c (x # xs) =
     (if x = c then [] # split_on c xs
      else (case split_on c xs of
              [] \<Rightarrow> [[x]]
            | y # ys \<Rightarrow> (x # y) # ys))"

definition startswith :: "string \<Rightarrow> string \<Rightarrow> bool" where
  "startswith s p = (take (length p) s = p)"

definition rstrip_slash :: "string \<Rightarrow> string" where
  "rstrip_slash s = rev (dropWhile (\<lambda>c. c = CHR ''/'') (rev s))"

text \<open>
  \<open>os.path.join(a, b)\<close> for two arguments: an absolute \<open>b\<close> replaces \<open>a\<close>; otherwise a
  slash is inserted unless \<open>a\<close> is empty or already ends in one.
\<close>

definition path_join :: "string \<Rightarrow> string \<Rightarrow> string" where
  "path_join a b =
     (if startswith b ''/'' then b
      else if a = [] \<or> last a = CHR ''/'' then a @ b
      else a @ ''/'' @ b)"

text \<open>
  \<open>os.path.split(p)\<close>: the tail is what follows the last slash; the head is what
  precedes it, with trailing slashes removed unless it consists of slashes only.
\<close>

definition path_split :: "string \<Rightarrow> string \<times> string" where
  "path_split p =
     (let tl0 = rev (takeWhile (\<lambda>c. c \<noteq> CHR ''/'') (rev p));
          hd0 = rev (dropWhile (\<lambda>c. c \<noteq> CHR ''/'') (rev p))
      in (if rstrip_slash hd0 = [] then hd0 else rstrip_slash hd0, tl0))"

definition basename :: "string \<Rightarrow> string" where
  "basename p = snd (path_split p)"

definition dirname :: "string \<Rightarrow> string" where
  "dirname p = fst (path_split p)"

definition isabs :: "string \<Rightarrow> bool" where
  "isabs p = startswith p ''/''"

subsection \<open>The file system\<close>

text \<open>
  A file system is a finite map from path strings to nodes, kept as an association list
  read by \<open>map_of\<close> (the first entry of a path is the one that counts; removal deletes
  every entry). Paths are the strings the program forms. A directory's children are the
  paths one component below it. Symbolic links are leaves: the final component of a path
  is followed where Python follows it (\<open>exists\<close>, \<open>isdir\<close>, \<open>isfile\<close>, \<open>open\<close>), a
  directory reached through a link is not listed.
\<close>

datatype node = Dir | File string | Link string

type_synonym filesys = "(string \<times> node) list"

fun follow :: "nat \<Rightarrow> filesys \<Rightarrow> string \<Rightarrow> string" where
  "follow 0 fs p = p"
| "follow (Suc n) fs p =
     (case map_of fs p of
        Some (Link t) \<Rightarrow> follow n fs (path_join (dirname p) t)
      | _ \<Rightarrow> p)"

text \<open>The node a path denotes after following links; a chain longer than the file
  system has entries is a loop and denotes nothing.\<close>

definition stat :: "filesys \<Rightarrow> string \<Rightarrow> node option" where
  "stat fs p =
     (case map_of fs (follow (length fs) fs p) of
        Some (Link t) \<Rightarrow> None
      | r \<Rightarrow> r)"

definition path_exists :: "filesys \<Rightarrow> string \<Rightarrow> bool" where
  "path_exists fs p = (stat fs p \<noteq> None)"

definition isdir :: "filesys \<Rightarrow> string \<Rightarrow> bool" where
  "isdir fs p = (stat fs p = Some Dir)"

definition isfile :: "filesys \<Rightarrow> string \<Rightarrow> bool" where
  "isfile fs p = (case stat fs p of Some (File c) \<Rightarrow> True | _ \<Rightarrow> False)"

definition islink :: "filesys \<Rightarrow> string \<Rightarrow> bool" where
  "islink fs p = (case map_of fs p of Some (Link t) \<Rightarrow> True | _ \<Rightarrow> False)"

text \<open>The directory that would hold a new entry \<open>p\<close>: the current directory (empty
  head) and the root always exist.\<close>

definition parent_ok :: "filesys \<Rightarrow> string \<Rightarrow> bool" where
  "parent_ok fs p = (dirname p = [] \<or> rstrip_slash (dirname p) = [] \<or> isdir fs (dirname p))"

definition under :: "string \<Rightarrow> string \<Rightarrow> bool" where
  "under d p = (p = d \<or> startswith p (d @ ''/''))"

definition remove_tree :: "string \<Rightarrow> filesys \<Rightarrow> filesys" where
  "remove_tree d fs = filter (\<lambda>(p, n). \<not> under d p) fs"

definition remove_entry :: "string \<Rightarrow> filesys \<Rightarrow> filesys" where
  "remove_entry d fs = filter (\<lambda>(p, n). p \<noteq> d) fs"

subsection \<open>The world and the monad\<close>

datatype event =
    Print string
  | Warning string
  | Subprocess "string list" "string option" "(string \<times> string) list"

record world =
  files :: filesys
  environ :: "(string \<times> string) list"
  trace :: "event list"
  tick :: nat

type_synonym 'a py = "world \<Rightarrow> (exn + 'a) \<times> world"

definition return :: "'a \<Rightarrow> 'a py" where
  "return x w = (Inr x, w)"

definition raise :: "exn \<Rightarrow> 'a py" where
  "raise e w = (Inl e, w)"

definition seq :: "'a py \<Rightarrow> ('a \<Rightarrow> 'b py) \<Rightarrow> 'b py" where
  "seq m k w = (case m w of (Inl e, w1) \<Rightarrow> (Inl e, w1) | (Inr x, w1) \<Rightarrow> k x w1)"

text \<open>\<open>try: body finally: cleanup\<close>: the cleanup runs on every exit of the body; an
  exception of the cleanup replaces the body's outcome.\<close>

definition try_finally :: "'a py \<Rightarrow> unit py \<Rightarrow> 'a py" where
  "try_finally body cleanup w =
     (case body w of (r, w1) \<Rightarrow>
        (case cleanup w1 of (Inl e, w2) \<Rightarrow> (Inl e, w2) | (Inr u, w2) \<Rightarrow> (r, w2)))"

fun for_each :: "('a \<Rightarrow> unit py) \<Rightarrow> 'a list \<Rightarrow> unit py" where
  "for_each f [] = return ()"
| "for_each f (x # xs) = seq (f x) (\<lambda>u. for_each f xs)"

definition py_print :: "string \<Rightarrow> unit py" where
  "py_print s w = (Inr (), w\<lparr>trace := trace w @ [Print s]\<rparr>)"

definition mlog_warning :: "string \<Rightarrow> unit py" where
  "mlog_warning s w = (Inr (), w\<lparr>trace := trace w @ [Warning s]\<rparr>)"

subsection \<open>File operations of os and shutil\<close>

text \<open>\<open>shutil.rmtree(p)\<close> (and \<open>windows_proof_rmtree\<close>, which retries it): refuses a
  symbolic link, a missing path and a non-directory; otherwise removes the directory and
  everything below it.\<close>

definition rmtree :: "string \<Rightarrow> unit py" where
  "rmtree p w =
     (case map_of (files w) p of
        None \<Rightarrow> (Inl (OSError ''FileNotFoundError''), w)
      | Some (Link t) \<Rightarrow> (Inl (OSError ''OSError''), w)
      | Some (File c) \<Rightarrow> (Inl (OSError ''NotADirectoryError''), w)
      | Some Dir \<Rightarrow> (Inr (), w\<lparr>files := remove_tree p (files w)\<rparr>))"

text \<open>\<open>os.unlink(p)\<close>: removes a file or a link, refuses a directory.\<close>

definition unlink :: "string \<Rightarrow> unit py" where
  "unlink p w =
     (case map_of (files w) p of
        None \<Rightarrow> (Inl (OSError ''FileNotFoundError''), w)
      | Some Dir \<Rightarrow> (Inl (OSError ''IsADirectoryError''), w)
      | Some n \<Rightarrow> (Inr (), w\<lparr>files := remove_entry p (files w)\<rparr>))"

text \<open>\<open>os.mkdir(p)\<close>: the path must be free and its parent a directory.\<close>

definition mkdir :: "string \<Rightarrow> unit py" where
  "mkdir p w =
     (if map_of (files w) p \<noteq> None then (Inl (OSError ''FileExistsError''), w)
      else if \<not> parent_ok (files w) p then (Inl (OSError ''FileNotFoundError''), w)
      else (Inr (), w\<lparr>files := (p, Dir) # files w\<rparr>))"

text \<open>\<open>open(p, 'rb').read()\<close> and iteration over \<open>open(p)\<close>: the content of the file
  the path denotes.\<close>

definition read_file :: "string \<Rightarrow> string py" where
  "read_file p w =
     (case stat (files w) p of
        None \<Rightarrow> (Inl (OSError ''FileNotFoundError''), w)
      | Some Dir \<Rightarrow> (Inl (OSError ''IsADirectoryError''), w)
      | Some (Link t) \<Rightarrow> (Inl (OSError ''OSError''), w)
      | Some (File c) \<Rightarrow> (Inr c, w))"

text \<open>\<open>open(p, 'w')\<close> followed by one \<open>write\<close>: creates or truncates the file the path
  denotes (through links), and fails on a directory, a link loop or a missing parent.\<close>

definition write_file :: "string \<Rightarrow> string \<Rightarrow> unit py" where
  "write_file p c w =
     (let q = follow (length (files w)) (files w) p in
      case map_of (files w) q of
        Some Dir \<Rightarrow> (Inl (OSError ''IsADirectoryError''), w)
      | Some (Link t) \<Rightarrow> (Inl (OSError ''OSError''), w)
      | Some (File old) \<Rightarrow> (Inr (), w\<lparr>files := (q, File c) # remove_entry q (files w)\<rparr>)
      | None \<Rightarrow>
          if parent_ok (files w) q then (Inr (), w\<lparr>files := (q, File c) # files w\<rparr>)
          else (Inl (OSError ''FileNotFoundError''), w))"

subsection \<open>What the module does not compute itself\<close>

text \<open>
  The loaded build description (\<open>build.load('.')\<close>) as far as the module reads it; a
  dist script is the dictionary with the keys \<open>exe\<close> and \<open>args\<close>.
\<close>

record dist_script =
  exe :: "string list"
  args :: "string list"

record build_data =
  source_dir :: string
  build_dir :: string
  project_name :: string
  project_version :: string
  dist_scripts :: "dist_script list"

text \<open>
  \<^item> \<open>subproc\<close>: a child process, given the number of external calls made before it, its
    argument vector, working directory, environment and the file system: either the
    launch raises, or the child exits with a status and an output, and in both cases
    leaves a file system behind;
  \<^item> \<open>sha256_hexdigest\<close>: \<open>hashlib.sha256\<close> followed by \<open>hexdigest\<close>;
  \<^item> \<open>archive_bytes\<close>: the bytes \<open>shutil.make_archive\<close> writes for a format, a root
    directory and a base directory, or the exception it raises;
  \<^item> \<open>unpack_entries\<close>: what \<open>shutil.unpack_archive\<close> extracts from an archive of a given
    name and content, as paths relative to the target directory, or its exception;
  \<^item> \<open>lzma_compress\<close>, \<open>gzip_compress\<close>: the two compressors;
  \<^item> \<open>detect_ninja\<close>: the name of the ninja binary, or \<open>None\<close>;
  \<^item> \<open>meson_command\<close>: the command line that runs Meson;
  \<^item> \<open>build_load\<close>: the build description, or the exception loading it raises;
  \<^item> \<open>str_repr\<close>: Python's \<open>repr\<close> of a string, used in two printed messages.
\<close>

record ext =
  subproc :: "nat \<Rightarrow> string list \<Rightarrow> string option \<Rightarrow> (string \<times> string) list
              \<Rightarrow> filesys \<Rightarrow> (exn + int \<times> string) \<times> filesys"
  sha256_hexdigest :: "string \<Rightarrow> string"
  archive_bytes :: "string \<Rightarrow> string \<Rightarrow> string \<Rightarrow> filesys \<Rightarrow> exn + string"
  unpack_entries :: "string \<Rightarrow> string \<Rightarrow> exn + (string \<times> node) list"
  lzma_compress :: "string \<Rightarrow> string"
  gzip_compress :: "string \<Rightarrow> string"
  detect_ninja :: "string option"
  meson_command :: "string list"
  build_load :: "exn + build_data"
  str_repr :: "string \<Rightarrow> string"

subsection \<open>Archive formats\<close>

definition archive_choices :: "string list" where
  "archive_choices = [''gztar'', ''xztar'', ''zip'']"

definition archive_extension :: "(string \<times> string) list" where
  "archive_extension = [(''gztar'', ''.tar.gz''), (''xztar'', ''.tar.xz''), (''zip'', ''.zip'')]"

text \<open>The text of \<open>'Value "{}" not one of permitted values {}.'.format(i, archive_choices)\<close>;
  the list is printed as Python prints a list of strings.\<close>

definition not_permitted_msg :: "string \<Rightarrow> string" where
  "not_permitted_msg i =
     ''Value '' @ [CHR 0x22] @ i @ [CHR 0x22] @ '' not one of permitted values ''
       @ ''['' @ [CHR 0x27] @ ''gztar'' @ [CHR 0x27] @ '', ''
       @ [CHR 0x27] @ ''xztar'' @ [CHR 0x27] @ '', ''
       @ [CHR 0x27] @ ''zip'' @ [CHR 0x27] @ ''].''"

text \<open>The loop of \<open>determine_archives_to_generate\<close>: the pieces still to visit and the
  result so far.\<close>

fun formats_loop :: "string list \<Rightarrow> string list \<Rightarrow> exn + string list" where
  "formats_loop [] result = Inr result"
| "formats_loop (i # rest) result =
     (if i \<notin> set archive_choices then Inl (SystemExit_msg (not_permitted_msg i))
      else formats_loop rest (result @ [i]))"

text \<open>After the loop the source tests \<open>len(i)\<close>, the length of the loop variable, which
  holds the last piece visited (and is unbound if there was none).\<close>

definition determine_archives_to_generate :: "string \<Rightarrow> exn + string list" where
  "determine_archives_to_generate formats =
     (let pieces = split_on CHR '','' formats in
      case formats_loop pieces [] of
        Inl e \<Rightarrow> Inl e
      | Inr result \<Rightarrow>
          (case pieces of
             [] \<Rightarrow> Inl NameError
           | p # ps \<Rightarrow>
               if length (last pieces) = 0
               then Inl (SystemExit_msg ''No archive types specified.'')
               else Inr result))"

subsection \<open>Integrity stamping\<close>

definition create_hash :: "ext \<Rightarrow> string \<Rightarrow> unit py" where
  "create_hash E fname =
     (let hashname = fname @ ''.sha256sum'' in
      seq (read_file fname) (\<lambda>content.
        write_file hashname
          (sha256_hexdigest E content @ '' '' @ basename fname @ [CHR 0x0A])))"

subsection \<open>Pattern matching of file names (glob)\<close>

text \<open>
  \<open>fnmatch\<close> for patterns built from literal characters, \<open>*\<close> and \<open>?\<close> (the module
  uses the patterns \<open>.git*\<close> and \<open>*\<close> only); the name comes first.
\<close>

fun fnmatch :: "string \<Rightarrow> string \<Rightarrow> bool" where
  "fnmatch [] [] = True"
| "fnmatch (c # cs) [] = False"
| "fnmatch [] (p # ps) = (p = CHR ''*'' \<and> fnmatch [] ps)"
| "fnmatch (c # cs) (p # ps) =
     (if p = CHR ''*'' then fnmatch (c # cs) ps \<or> fnmatch cs (p # ps)
      else if p = CHR ''?'' then fnmatch cs ps
      else c = p \<and> fnmatch cs ps)"

text \<open>The characters that make \<open>glob\<close> treat a path component as a pattern.\<close>

definition has_magic :: "string \<Rightarrow> bool" where
  "has_magic s = list_ex (\<lambda>c. c = CHR ''*'' \<or> c = CHR ''?'' \<or> c = CHR ''['') s"

text \<open>The name under which path \<open>k\<close> is a direct child of directory \<open>d\<close>, if it is.\<close>

definition child_name :: "string \<Rightarrow> string \<Rightarrow> string option" where
  "child_name d k =
     (let pre = (if d = [] then [] else if last d = CHR ''/'' then d else d @ ''/'');
          name = drop (length pre) k
      in if startswith k pre \<and> name \<noteq> [] \<and> CHR ''/'' \<notin> set name then Some name else None)"

text \<open>The entries of a directory (\<open>os.scandir\<close>); nothing for what is not a directory.
  The current directory and the root need no entry of their own.\<close>

definition listdir :: "filesys \<Rightarrow> string \<Rightarrow> string list" where
  "listdir fs d =
     (if rstrip_slash d = [] \<or> map_of fs d = Some Dir
      then remdups (List.map_filter (child_name d) (map fst fs))
      else [])"

text \<open>
  \<open>glob(pathname)\<close> for a pathname whose last component is a pattern and whose
  directory part is taken literally (\<open>glob\<close> itself expands a directory part that
  contains \<open>*\<close>, \<open>?\<close> or \<open>[\<close>; the theorems below exclude such directories by
  \<open>has_magic\<close>). A name that begins with a dot is matched only by a pattern that begins
  with a dot. The results are joined to the directory part.
\<close>

definition glob :: "filesys \<Rightarrow> string \<Rightarrow> string list" where
  "glob fs pathname =
     (case path_split pathname of (d, pat) \<Rightarrow>
        map (path_join d)
          (filter (\<lambda>n. fnmatch n pat)
             (filter (\<lambda>n. startswith pat ''.'' \<or> \<not> startswith n ''.'') (listdir fs d))))"

subsection \<open>Child processes\<close>

text \<open>
  One child process: it is recorded in the trace with its effective environment (the
  process environment when none is passed), counted, and its effect on the file system
  is whatever \<open>subproc\<close> says.
\<close>

definition subprocess_run ::
  "ext \<Rightarrow> string list \<Rightarrow> string option \<Rightarrow> (string \<times> string) list option \<Rightarrow> (int \<times> string) py" where
  "subprocess_run E argv cwd env w =
     (let env1 = (case env of None \<Rightarrow> environ w | Some e \<Rightarrow> e);
          w1 = w\<lparr>trace := trace w @ [Subprocess argv cwd env1], tick := Suc (tick w)\<rparr>
      in case subproc E (tick w) argv cwd env1 (files w) of
           (Inl e, fs1) \<Rightarrow> (Inl e, w1\<lparr>files := fs1\<rparr>)
         | (Inr r, fs1) \<Rightarrow> (Inr r, w1\<lparr>files := fs1\<rparr>))"

definition subprocess_call ::
  "ext \<Rightarrow> string list \<Rightarrow> string option \<Rightarrow> (string \<times> string) list option \<Rightarrow> int py" where
  "subprocess_call E argv cwd env = seq (subprocess_run E argv cwd env) (\<lambda>r. return (fst r))"

definition subprocess_check_call ::
  "ext \<Rightarrow> string list \<Rightarrow> string option \<Rightarrow> (string \<times> string) list option \<Rightarrow> unit py" where
  "subprocess_check_call E argv cwd env =
     seq (subprocess_run E argv cwd env)
       (\<lambda>r. if fst r \<noteq> 0 then raise (CalledProcessError (fst r) argv) else return ())"

definition subprocess_check_output ::
  "ext \<Rightarrow> string list \<Rightarrow> string option \<Rightarrow> (string \<times> string) list option \<Rightarrow> string py" where
  "subprocess_check_output E argv cwd env =
     seq (subprocess_run E argv cwd env)
       (\<lambda>r. if fst r \<noteq> 0 then raise (CalledProcessError (fst r) argv) else return (snd r))"

text \<open>\<open>try: body except OSError: handler\<close>.\<close>

definition except_OSError :: "'a py \<Rightarrow> 'a py \<Rightarrow> 'a py" where
  "except_OSError body handler w =
     (case body w of
        (Inl (OSError k), w1) \<Rightarrow> handler w1
      | r \<Rightarrow> r)"

subsection \<open>Stripping git files\<close>

definition del_gitfiles :: "string \<Rightarrow> unit py" where
  "del_gitfiles dirname0 w =
     for_each
       (\<lambda>f w1. if (isdir (files w1) f \<and> \<not> islink (files w1) f) then rmtree f w1 else unlink f w1)
       (glob (files w) (path_join dirname0 ''.git*'')) w"

text \<open>
  Text files are read as sequences of 8-bit characters. \<open>isspace\<close> is \<open>str.isspace\<close> on
  them, \<open>strip\<close> is \<open>str.strip()\<close>. Iterating over a text file yields its lines with
  their terminators, every \<open>\r\n\<close> and \<open>\r\<close> read as \<open>\n\<close>.
\<close>

definition isspace :: "char \<Rightarrow> bool" where
  "isspace c = (c \<in> set [CHR 0x09, CHR 0x0A, CHR 0x0B, CHR 0x0C, CHR 0x0D, CHR 0x1C,
                          CHR 0x1D, CHR 0x1E, CHR 0x1F, CHR 0x20, CHR 0x85, CHR 0xA0])"

definition strip :: "string \<Rightarrow> string" where
  "strip s = rev (dropWhile isspace (rev (dropWhile isspace s)))"

fun universal_newlines :: "string \<Rightarrow> string" where
  "universal_newlines [] = []"
| "universal_newlines [c] = [if c = CHR 0x0D then CHR 0x0A else c]"
| "universal_newlines (c # d # cs) =
     (if c = CHR 0x0D \<and> d = CHR 0x0A then CHR 0x0A # universal_newlines cs
      else if c = CHR 0x0D then CHR 0x0A # universal_newlines (d # cs)
      else c # universal_newlines (d # cs))"

fun keep_lines :: "string \<Rightarrow> string \<Rightarrow> string list" where
  "keep_lines acc [] = (if acc = [] then [] else [acc])"
| "keep_lines acc (c # cs) =
     (if c = CHR 0x0A then (acc @ [c]) # keep_lines [] cs else keep_lines (acc @ [c]) cs)"

definition file_lines :: "string \<Rightarrow> string list" where
  "file_lines content = keep_lines [] (universal_newlines content)"

definition process_submodules :: "ext \<Rightarrow> string \<Rightarrow> unit py" where
  "process_submodules E dirname0 w =
     (let module_file = path_join dirname0 ''.gitmodules'' in
      if \<not> path_exists (files w) module_file then return () w
      else
        seq (subprocess_check_call E
               [''git'', ''submodule'', ''update'', ''--init'', ''--recursive'']
               (Some dirname0) None) (\<lambda>u.
        seq (read_file module_file) (\<lambda>content.
          for_each
            (\<lambda>line0.
               let line = strip line0 in
               if CHR ''='' \<notin> set line then return ()
               else
                 let k = strip (takeWhile (\<lambda>c. c \<noteq> CHR ''='') line);
                     v = strip (tl (dropWhile (\<lambda>c. c \<noteq> CHR ''='') line))
                 in if k \<noteq> ''path'' then return ()
                    else del_gitfiles (path_join dirname0 v))
            (file_lines content))) w)"

subsection \<open>Dist scripts\<close>

fun join_space :: "string list \<Rightarrow> string" where
  "join_space [] = []"
| "join_space [x] = x"
| "join_space (x # y # ys) = x @ '' '' @ join_space (y # ys)"

text \<open>The body of the loop over the dist scripts, for the environment \<open>env\<close> built
  before the loop.\<close>

definition dist_script_step :: "ext \<Rightarrow> (string \<times> string) list \<Rightarrow> dist_script \<Rightarrow> unit py" where
  "dist_script_step E env d =
     (let script = exe d;
          args1 = args d;
          name = join_space (script @ args1)
      in seq (py_print (''Running custom dist script '' @ str_repr E name)) (\<lambda>u.
           except_OSError
             (seq (subprocess_call E (script @ args1) None (Some env)) (\<lambda>rc.
                if rc \<noteq> 0 then raise (SystemExit_msg ''Dist script errored out'')
                else return ()))
             (seq (py_print (''Failed to run dist script '' @ str_repr E name)) (\<lambda>u.
                raise (SystemExit_code 1)))))"

definition run_dist_scripts :: "ext \<Rightarrow> string \<Rightarrow> dist_script list \<Rightarrow> unit py" where
  "run_dist_scripts E dist_root scripts w =
     (if \<not> isabs dist_root then raise AssertionError w
      else
        let env = AList.update ''MESON_DIST_ROOT'' dist_root (environ w) in
        for_each (dist_script_step E env) scripts w)"

subsection \<open>The Git strategy\<close>

definition git_have_dirty_index :: "ext \<Rightarrow> string \<Rightarrow> bool py" where
  "git_have_dirty_index E src_root =
     seq (subprocess_call E [''git'', ''-C'', src_root, ''diff-index'', ''--quiet'', ''HEAD'']
            None None)
       (\<lambda>ret. return (ret = 1))"

definition uncommitted_warning :: string where
  "uncommitted_warning =
     ''Repository has uncommitted changes that will not be included in the dist tarball''"

text \<open>The proper ancestors of a path, nearest first (at most \<open>n\<close> of them).\<close>

fun ancestors :: "nat \<Rightarrow> string \<Rightarrow> string list" where
  "ancestors 0 p = []"
| "ancestors (Suc n) p =
     (if dirname p = p \<or> rstrip_slash (dirname p) = [] then []
      else dirname p # ancestors n (dirname p))"

text \<open>
  \<open>os.makedirs(name, exist_ok)\<close>: creates the directory and every missing ancestor. An
  existing path is an error unless \<open>exist_ok\<close> is set and the path is a directory; an
  ancestor that exists and is not a directory is an error.
\<close>

definition makedirs :: "string \<Rightarrow> bool \<Rightarrow> unit py" where
  "makedirs name exist_ok w =
     (let fs = files w;
          anc = ancestors (length name) name
      in if map_of fs name \<noteq> None then
           (if exist_ok \<and> isdir fs name then (Inr (), w)
            else (Inl (OSError ''FileExistsError''), w))
         else if list_ex (\<lambda>a. map_of fs a \<noteq> None \<and> \<not> isdir fs a) anc then
           (Inl (OSError ''NotADirectoryError''), w)
         else (Inr (), w\<lparr>files :=
                 (name, Dir) # map (\<lambda>a. (a, Dir)) (filter (\<lambda>a. map_of fs a = None) anc) @ fs\<rparr>))"

text \<open>The formats \<open>shutil.make_archive\<close> knows, with the extension it appends.\<close>

definition shutil_extension :: "(string \<times> string) list" where
  "shutil_extension =
     [(''bztar'', ''.tar.bz2''), (''gztar'', ''.tar.gz''), (''tar'', ''.tar''),
      (''xztar'', ''.tar.xz''), (''zip'', ''.zip'')]"

definition make_archive :: "ext \<Rightarrow> string \<Rightarrow> string \<Rightarrow> string \<Rightarrow> string \<Rightarrow> unit py" where
  "make_archive E base_name fmt root_dir base_dir w =
     (case map_of shutil_extension fmt of
        None \<Rightarrow> (Inl (Raised ''ValueError''), w)
      | Some e \<Rightarrow>
          (case archive_bytes E fmt root_dir base_dir (files w) of
             Inl x \<Rightarrow> (Inl x, w)
           | Inr bytes \<Rightarrow> write_file (base_name @ e) bytes w))"

text \<open>The loop over the requested formats in \<open>create_dist_git\<close>.\<close>

fun git_archive_loop ::
  "ext \<Rightarrow> string \<Rightarrow> string \<Rightarrow> string \<Rightarrow> string list \<Rightarrow> string list \<Rightarrow> string list py" where
  "git_archive_loop E distdir dist_sub dist_name [] output_names = return output_names"
| "git_archive_loop E distdir dist_sub dist_name (a # rest) output_names =
     (case map_of archive_extension a of
        None \<Rightarrow> raise (KeyError a)
      | Some e \<Rightarrow>
          (let compressed_name = distdir @ e in
           seq (make_archive E distdir a dist_sub dist_name) (\<lambda>u.
             git_archive_loop E distdir dist_sub dist_name rest
               (output_names @ [compressed_name]))))"

definition create_dist_git ::
  "ext \<Rightarrow> string \<Rightarrow> string list \<Rightarrow> string \<Rightarrow> string \<Rightarrow> string \<Rightarrow> dist_script list
     \<Rightarrow> string list py" where
  "create_dist_git E dist_name archives src_root bld_root dist_sub scripts =
     seq (git_have_dirty_index E src_root) (\<lambda>dirty.
     seq (if dirty then mlog_warning uncommitted_warning else return ()) (\<lambda>u.
     let distdir = path_join dist_sub dist_name in
     seq (\<lambda>w. if path_exists (files w) distdir then rmtree distdir w else return () w) (\<lambda>u.
     seq (makedirs distdir False) (\<lambda>u.
     seq (subprocess_check_call E [''git'', ''clone'', ''--shared'', src_root, distdir]
            None None) (\<lambda>u.
     seq (process_submodules E distdir) (\<lambda>u.
     seq (del_gitfiles distdir) (\<lambda>u.
     seq (run_dist_scripts E distdir scripts) (\<lambda>u.
     seq (git_archive_loop E distdir dist_sub dist_name archives []) (\<lambda>output_names.
     seq (rmtree distdir) (\<lambda>u.
     return output_names))))))))))"

subsection \<open>The Mercurial strategy\<close>

definition hg_have_dirty_index :: "ext \<Rightarrow> string \<Rightarrow> bool py" where
  "hg_have_dirty_index E src_root =
     seq (subprocess_check_output E [''hg'', ''-R'', src_root, ''summary''] None None)
       (\<lambda>out. return (\<not> sublist ''commit: (clean)'' out))"

text \<open>
  \<open>with lzma.open(dst, 'wb') as xf, open(src, 'rb') as tf: shutil.copyfileobj(tf, xf)\<close>:
  the destination is opened (and so created) first; if the source cannot be opened, the
  destination is left holding the compression of nothing.
\<close>

definition compress_copy :: "(string \<Rightarrow> string) \<Rightarrow> string \<Rightarrow> string \<Rightarrow> unit py" where
  "compress_copy compressor src dst =
     seq (write_file dst (compressor [])) (\<lambda>u.
     seq (read_file src) (\<lambda>content.
     write_file dst (compressor content)))"

definition create_dist_hg ::
  "ext \<Rightarrow> string \<Rightarrow> string list \<Rightarrow> string \<Rightarrow> string \<Rightarrow> string \<Rightarrow> dist_script list
     \<Rightarrow> string list py" where
  "create_dist_hg E dist_name archives src_root bld_root dist_sub scripts =
     seq (hg_have_dirty_index E src_root) (\<lambda>dirty.
     seq (if dirty then mlog_warning uncommitted_warning else return ()) (\<lambda>u.
     seq (makedirs dist_sub True) (\<lambda>u.
     let tarname = path_join dist_sub (dist_name @ ''.tar'');
         xzname = tarname @ ''.xz'';
         gzname = tarname @ ''.gz'';
         zipname = path_join dist_sub (dist_name @ ''.zip'')
     in
     seq (subprocess_check_call E
            [''hg'', ''archive'', ''-R'', src_root, ''-S'', ''-t'', ''tar'', tarname]
            None None) (\<lambda>u.
     seq (if scripts \<noteq> []
          then mlog_warning ''dist scripts are not supported in Mercurial projects''
          else return ()) (\<lambda>u.
     seq (if ''xztar'' \<in> set archives
          then seq (compress_copy (lzma_compress E) tarname xzname) (\<lambda>u. return [xzname])
          else return []) (\<lambda>output_names1.
     seq (if ''gztar'' \<in> set archives
          then seq (compress_copy (gzip_compress E) tarname gzname)
                 (\<lambda>u. return (output_names1 @ [gzname]))
          else return output_names1) (\<lambda>output_names2.
     seq (unlink tarname) (\<lambda>u.
     seq (if ''zip'' \<in> set archives
          then seq (subprocess_check_call E
                      [''hg'', ''archive'', ''-R'', src_root, ''-S'', ''-t'', ''zip'', zipname]
                      None None)
                 (\<lambda>u. return (output_names2 @ [zipname]))
          else return output_names2) (\<lambda>output_names3.
     return output_names3)))))))))"

subsection \<open>Verification of an archive\<close>

text \<open>\<open>shutil.unpack_archive(filename, extract_dir)\<close>: the entries extracted from the
  archive are placed below the target directory, replacing what was there.\<close>

definition unpack_archive :: "ext \<Rightarrow> string \<Rightarrow> string \<Rightarrow> unit py" where
  "unpack_archive E filename extract_dir =
     seq (read_file filename) (\<lambda>content w.
       case unpack_entries E filename content of
         Inl x \<Rightarrow> (Inl x, w)
       | Inr entries \<Rightarrow>
           (Inr (), w\<lparr>files := map (\<lambda>(rel, n). (path_join extract_dir rel, n)) entries @ files w\<rparr>))"

text \<open>A call whose argument vector may hold \<open>None\<close> (the ninja binary when none was
  detected): Python raises \<open>TypeError\<close> before any process is launched.\<close>

definition subprocess_call_objs ::
  "ext \<Rightarrow> string option list \<Rightarrow> string option \<Rightarrow> (string \<times> string) list option \<Rightarrow> int py" where
  "subprocess_call_objs E argv cwd env =
     (if None \<in> set argv then raise TypeError
      else subprocess_call E (map the argv) cwd env)"

text \<open>The loop that recreates the three scratch directories.\<close>

definition check_dist_prepare :: "string list \<Rightarrow> unit py" where
  "check_dist_prepare dirs =
     for_each
       (\<lambda>p. seq (\<lambda>w. if path_exists (files w) p then rmtree p w else return () w)
               (\<lambda>u. mkdir p))
       dirs"

text \<open>The body of the \<open>try\<close> statement. Its value is \<open>Some 1\<close> for each \<open>return 1\<close> and
  \<open>None\<close> when control falls through to the code after the statement.\<close>

definition check_dist_try ::
  "ext \<Rightarrow> string \<Rightarrow> string list \<Rightarrow> string option \<Rightarrow> string \<Rightarrow> string \<Rightarrow> string
     \<Rightarrow> int option py" where
  "check_dist_try E packagename meson_cmd ninja_bin unpackdir builddir installdir =
     seq (unpack_archive E packagename unpackdir) (\<lambda>u w.
       let unpacked_files = glob (files w) (path_join unpackdir ''*'') in
       if length unpacked_files \<noteq> 1 then raise AssertionError w
       else
         (let unpacked_src_dir = unpacked_files ! 0 in
          seq (subprocess_call E (meson_cmd @ [''--backend=ninja'', unpacked_src_dir, builddir])
                 None None) (\<lambda>rc.
            if rc \<noteq> 0 then
              seq (py_print ''Running Meson on distribution package failed'') (\<lambda>u.
                return (Some 1))
            else
          seq (subprocess_call_objs E [ninja_bin] (Some builddir) None) (\<lambda>rc.
            if rc \<noteq> 0 then
              seq (py_print ''Compiling the distribution package failed'') (\<lambda>u.
                return (Some 1))
            else
          seq (subprocess_call_objs E [ninja_bin, Some ''test''] (Some builddir) None) (\<lambda>rc.
            if rc \<noteq> 0 then
              seq (py_print ''Running unit tests on the distribution package failed'') (\<lambda>u.
                return (Some 1))
            else
          (\<lambda>w1.
            let myenv = AList.update ''DESTDIR'' installdir (environ w1) in
            seq (subprocess_call_objs E [ninja_bin, Some ''install''] (Some builddir)
                   (Some myenv)) (\<lambda>rc.
              if rc \<noteq> 0 then
                seq (py_print ''Installing the distribution package failed'') (\<lambda>u.
                  return (Some 1))
              else return None) w1))))) w)"

text \<open>The \<open>finally\<close> clause.\<close>

definition check_dist_finally :: "string \<Rightarrow> string \<Rightarrow> string \<Rightarrow> unit py" where
  "check_dist_finally unpackdir builddir installdir =
     seq (rmtree unpackdir) (\<lambda>u.
     seq (rmtree builddir) (\<lambda>u.
     rmtree installdir))"

definition check_dist :: "ext \<Rightarrow> string \<Rightarrow> string list \<Rightarrow> string \<Rightarrow> int py" where
  "check_dist E packagename meson_cmd privdir =
     seq (py_print (''Testing distribution package '' @ packagename)) (\<lambda>u.
     let unpackdir = path_join privdir ''dist-unpack'';
         builddir = path_join privdir ''dist-build'';
         installdir = path_join privdir ''dist-install''
     in
     seq (check_dist_prepare [unpackdir, builddir, installdir]) (\<lambda>u.
     let ninja_bin = detect_ninja E in
     seq (try_finally
            (check_dist_try E packagename meson_cmd ninja_bin unpackdir builddir installdir)
            (check_dist_finally unpackdir builddir installdir)) (\<lambda>r.
     case r of
       Some rc \<Rightarrow> return rc
     | None \<Rightarrow>
         seq (py_print (''Distribution package '' @ packagename @ '' tested'')) (\<lambda>u.
           return 0))))"

subsection \<open>The coordinator\<close>

record dist_options =
  formats :: string

text \<open>
  \<open>run\<close>. The value of the strategy selection is \<open>Some names\<close> after a strategy ran and
  \<open>None\<close> where the source returns 1 because the tree is neither a Git nor a Mercurial
  repository. \<open>names[0]\<close> raises \<open>IndexError\<close> on an empty list.
\<close>

definition run :: "ext \<Rightarrow> dist_options \<Rightarrow> int py" where
  "run E options1 =
     (case build_load E of
        Inl x \<Rightarrow> raise x
      | Inr b \<Rightarrow>
          (let meson_cmd = meson_command E;
               src_root = source_dir b;
               bld_root = build_dir b;
               priv_dir = path_join bld_root ''meson-private'';
               dist_sub = path_join bld_root ''meson-dist'';
               dist_name = project_name b @ ''-'' @ project_version b
           in case determine_archives_to_generate (formats options1) of
                Inl x \<Rightarrow> raise x
              | Inr archives \<Rightarrow>
                  seq (\<lambda>w.
                         let git1 = path_join src_root ''.git'' in
                         if isdir (files w) git1 \<or> isfile (files w) git1 then
                           seq (create_dist_git E dist_name archives src_root bld_root dist_sub
                                  (dist_scripts b)) (\<lambda>names. return (Some names)) w
                         else if isdir (files w) (path_join src_root ''.hg'') then
                           seq (create_dist_hg E dist_name archives src_root bld_root dist_sub
                                  (dist_scripts b)) (\<lambda>names. return (Some names)) w
                         else
                           seq (py_print ''Dist currently only works with Git or Mercurial repos'')
                             (\<lambda>u. return None) w) (\<lambda>r.
                  case r of
                    None \<Rightarrow> return 1
                  | Some names \<Rightarrow>
                      (case names of
                         [] \<Rightarrow> raise IndexError
                       | first # others \<Rightarrow>
                           seq (check_dist E first meson_cmd priv_dir) (\<lambda>rc.
                           seq (if rc = 0 then for_each (create_hash E) names else return ())
                             (\<lambda>u. return rc))))))"

subsection \<open>Concrete worlds for the closed theorems\<close>

text \<open>An environment in which every child process succeeds and changes nothing; the
  digest function returns the SHA-256 digest of the empty byte string.\<close>

definition demo_hex :: string where
  "demo_hex = ''e3b0c44298fc1c149afbf4c8996fb92427ae41e4649b934ca495991b7852b855''"

definition hash_ext :: ext where
  "hash_ext = \<lparr>subproc = (\<lambda>n argv cwd env fs. (Inr (0, []), fs)),
      sha256_hexdigest = (\<lambda>c. demo_hex),
      archive_bytes = (\<lambda>fmt root base fs. Inr []),
      unpack_entries = (\<lambda>name c. Inr []),
      lzma_compress = (\<lambda>c. c), gzip_compress = (\<lambda>c. c),
      detect_ninja = Some ''ninja'', meson_command = [''meson''],
      build_load = Inl (Raised ''none''), str_repr = (\<lambda>s. s)\<rparr>"

text \<open>A build directory holding one empty archive.\<close>

definition hash_world :: world where
  "hash_world = \<lparr>files = [(''/b'', Dir), (''/b/meson-dist'', Dir),
                           (''/b/meson-dist/p-1.zip'', File [])],
      environ = [], trace = [], tick = 0\<rparr>"

subsection \<open>Predicates used in the statements\<close>

text \<open>An invariant of the world that a computation keeps, whatever its outcome.\<close>

definition preserves :: "(world \<Rightarrow> bool) \<Rightarrow> 'a py \<Rightarrow> bool" where
  "preserves I m = (\<forall>w. I w \<longrightarrow> I (snd (m w)))"

definition is_subprocess :: "event \<Rightarrow> bool" where
  "is_subprocess e = (case e of Subprocess a c v \<Rightarrow> True | _ \<Rightarrow> False)"

definition is_warning :: "event \<Rightarrow> bool" where
  "is_warning e = (case e of Warning s \<Rightarrow> True | _ \<Rightarrow> False)"

text \<open>The trace has grown from \<open>t0\<close> by events that all satisfy \<open>P\<close>.\<close>

definition grown :: "(event \<Rightarrow> bool) \<Rightarrow> event list \<Rightarrow> world \<Rightarrow> bool" where
  "grown P t0 w = (\<exists>es. trace w = t0 @ es \<and> list_all P es)"

text \<open>An environment in which every child process exits with the given status and
  changes nothing.\<close>

definition status_ext :: "int \<Rightarrow> ext" where
  "status_ext rc = hash_ext\<lparr>subproc := (\<lambda>n argv cwd env fs. (Inr (rc, []), fs))\<rparr>"

section \<open>Properties\<close>

subsection \<open>Format validation\<close>

lemma split_on_nonempty: "split_on c s \<noteq> []"
  by (induction s) (auto split: list.splits)

lemma formats_loop_Inr:
  "formats_loop ps acc = Inr r \<Longrightarrow> \<forall>p \<in> set ps. p \<in> set archive_choices"
  by (induction ps arbitrary: acc) (auto split: if_splits)

lemma formats_loop_Inl:
  "formats_loop ps acc = Inl e \<Longrightarrow> \<exists>i. e = SystemExit_msg (not_permitted_msg i)"
  by (induction ps arbitrary: acc) (auto split: if_splits)

lemma choices_nonempty: "p \<in> set archive_choices \<Longrightarrow> p \<noteq> []"
  by (auto simp: archive_choices_def)

text \<open>
  Claim C4. An empty format list should abort with an error of its own, distinct from
  the error for an unrecognised format. On the code, the empty format string splits into
  the single piece \<open>''\<close>, which is rejected by the membership test with the
  unrecognised-format message; the message \<open>No archive types specified.\<close> is never the
  outcome, for any format string, because the test \<open>len(i) == 0\<close> is reached only when
  every piece, the last one included, is one of the three format names.
\<close>

theorem determine_archives_empty_formats:
  "determine_archives_to_generate [] = Inl (SystemExit_msg (not_permitted_msg []))
   \<and> not_permitted_msg [] \<noteq> ''No archive types specified.''
   \<and> (\<forall>formats. determine_archives_to_generate formats
          \<noteq> Inl (SystemExit_msg ''No archive types specified.''))"
proof (intro conjI allI)
  show "determine_archives_to_generate [] = Inl (SystemExit_msg (not_permitted_msg []))"
    by (simp add: determine_archives_to_generate_def archive_choices_def)
  show "not_permitted_msg [] \<noteq> ''No archive types specified.''"
    by (simp add: not_permitted_msg_def)
next
  fix formats
  show "determine_archives_to_generate formats
          \<noteq> Inl (SystemExit_msg ''No archive types specified.'')"
  proof
    assume a: "determine_archives_to_generate formats
          = Inl (SystemExit_msg ''No archive types specified.'')"
    let ?ps = "split_on CHR '','' formats"
    show False
    proof (cases "formats_loop ?ps []")
      case (Inl e)
      then have "e = SystemExit_msg ''No archive types specified.''"
        using a by (simp add: determine_archives_to_generate_def)
      then obtain i where "not_permitted_msg i = ''No archive types specified.''"
        using formats_loop_Inl[OF Inl] by fastforce
      then show False by (simp add: not_permitted_msg_def)
    next
      case (Inr r)
      have ne: "?ps \<noteq> []" by (rule split_on_nonempty)
      then have "last ?ps \<in> set ?ps" by simp
      then have "last ?ps \<noteq> []"
        using formats_loop_Inr[OF Inr] choices_nonempty by blast
      then show False using a Inr ne
        by (auto simp: determine_archives_to_generate_def Let_def split: list.splits)
    qed
  qed
qed

subsection \<open>Integrity stamping\<close>

lemma follow_None: "map_of fs p = None \<Longrightarrow> follow n fs p = p"
  by (cases n) auto

lemma follow_File: "map_of fs p = Some (File c) \<Longrightarrow> follow n fs p = p"
  by (cases n) auto

lemma follow_Dir: "map_of fs p = Some Dir \<Longrightarrow> follow n fs p = p"
  by (cases n) auto

lemma map_of_remove_entry:
  "map_of (remove_entry q fs) p = (if p = q then None else map_of fs p)"
  by (induction fs) (auto simp: remove_entry_def)

text \<open>
  Claim C5, as the code has it. Stamping the archive at path \<open>fname\<close>, a file with
  content \<open>content\<close> whose sidecar path is free (with an existing parent directory) or
  already a regular file, succeeds and leaves at \<open>fname + '.sha256sum'\<close> a file whose
  entire content is the hex digest of the content, ONE space, the archive's base name and
  a newline; no other path changes and nothing is printed or launched.
\<close>

theorem create_hash_sidecar:
  assumes "stat (files w) fname = Some (File content)"
    and "(map_of (files w) (fname @ ''.sha256sum'') = None
           \<and> parent_ok (files w) (fname @ ''.sha256sum''))
         \<or> (\<exists>old. map_of (files w) (fname @ ''.sha256sum'') = Some (File old))"
  shows "fst (create_hash E fname w) = Inr ()
     \<and> map_of (files (snd (create_hash E fname w))) (fname @ ''.sha256sum'')
         = Some (File (sha256_hexdigest E content @ '' '' @ basename fname @ [CHR 0x0A]))
     \<and> (\<forall>p. p \<noteq> fname @ ''.sha256sum''
            \<longrightarrow> map_of (files (snd (create_hash E fname w))) p = map_of (files w) p)
     \<and> trace (snd (create_hash E fname w)) = trace w"
  using assms
  by (auto simp: create_hash_def seq_def read_file_def write_file_def Let_def follow_None
        follow_File map_of_remove_entry)

theorem create_hash_sidecar_witness:
  "fst (create_hash hash_ext ''/b/meson-dist/p-1.zip'' hash_world) = Inr ()
   \<and> map_of (files (snd (create_hash hash_ext ''/b/meson-dist/p-1.zip'' hash_world)))
        ''/b/meson-dist/p-1.zip.sha256sum''
      = Some (File (demo_hex @ '' p-1.zip'' @ [CHR 0x0A]))"
proof -
  have a: "stat (files hash_world) ''/b/meson-dist/p-1.zip'' = Some (File [])"
    by code_simp
  have b: "map_of (files hash_world) (''/b/meson-dist/p-1.zip'' @ ''.sha256sum'') = None
           \<and> parent_ok (files hash_world) (''/b/meson-dist/p-1.zip'' @ ''.sha256sum'')"
    by code_simp
  have c: "basename ''/b/meson-dist/p-1.zip'' = ''p-1.zip''"
    by code_simp
  show ?thesis
    using create_hash_sidecar [OF a disjI1 [OF b], of hash_ext]
    by (simp add: c hash_ext_def)
qed

text \<open>
  Claim C5 as stated, with two spaces between digest and base name, fails: for the empty
  archive \<open>/b/meson-dist/p-1.zip\<close> the sidecar holds the digest, one space, \<open>p-1.zip\<close> and
  a newline, which is not the two-space layout.
\<close>

theorem create_hash_two_spaces_counterexample:
  "map_of (files (snd (create_hash hash_ext ''/b/meson-dist/p-1.zip'' hash_world)))
        ''/b/meson-dist/p-1.zip.sha256sum''
      = Some (File (demo_hex @ '' p-1.zip'' @ [CHR 0x0A]))
   \<and> map_of (files (snd (create_hash hash_ext ''/b/meson-dist/p-1.zip'' hash_world)))
        ''/b/meson-dist/p-1.zip.sha256sum''
      \<noteq> Some (File (demo_hex @ ''  p-1.zip'' @ [CHR 0x0A]))"
  by code_simp

subsection \<open>Invariants through the monad\<close>

lemma preservesI: "(\<And>w. I w \<Longrightarrow> I (snd (m w))) \<Longrightarrow> preserves I m"
  by (simp add: preserves_def)

lemma preservesD: "preserves I m \<Longrightarrow> I w \<Longrightarrow> I (snd (m w))"
  by (simp add: preserves_def)

lemma preserves_return: "preserves I (return x)"
  by (simp add: preserves_def return_def)

lemma preserves_raise: "preserves I (raise e)"
  by (simp add: preserves_def raise_def)

lemma preserves_seq:
  "preserves I m \<Longrightarrow> (\<And>x. preserves I (k x)) \<Longrightarrow> preserves I (seq m k)"
  unfolding preserves_def seq_def
  by (auto split: prod.splits sum.splits)

lemma preserves_if: "preserves I a \<Longrightarrow> preserves I b \<Longrightarrow> preserves I (if c then a else b)"
  by simp

lemma preserves_if_w:
  "preserves I a \<Longrightarrow> preserves I b \<Longrightarrow> preserves I (\<lambda>w. if c w then a w else b w)"
  by (simp add: preserves_def)

lemma preserves_dep: "(\<And>v. preserves I (f v)) \<Longrightarrow> preserves I (\<lambda>w. f (g w) w)"
  by (simp add: preserves_def)

lemma preserves_for_each: "(\<And>x. preserves I (f x)) \<Longrightarrow> preserves I (for_each f xs)"
  by (induction xs) (auto intro: preserves_return preserves_seq)

lemma preserves_try_finally:
  "preserves I body \<Longrightarrow> preserves I cleanup \<Longrightarrow> preserves I (try_finally body cleanup)"
  unfolding preserves_def try_finally_def
  by (auto split: prod.splits sum.splits)

lemma preserves_except_OSError:
  "preserves I body \<Longrightarrow> preserves I handler \<Longrightarrow> preserves I (except_OSError body handler)"
  unfolding preserves_def except_OSError_def
  by (auto split: prod.splits sum.splits exn.splits)

lemma grown_refl: "grown P (trace w) w"
  by (simp add: grown_def)

lemma grown_silent:
  assumes "\<And>w. trace (snd (m w)) = trace w"
  shows "preserves (grown P t0) m"
  using assms by (simp add: preserves_def grown_def)

lemma grown_emit:
  assumes "\<And>w. \<exists>e. trace (snd (m w)) = trace w @ [e] \<and> P e"
  shows "preserves (grown P t0) m"
  unfolding preserves_def grown_def
proof (intro allI impI)
  fix w :: world
  assume "\<exists>es. trace w = t0 @ es \<and> list_all P es"
  then obtain es where es: "trace w = t0 @ es" "list_all P es" by blast
  from assms obtain e where e: "trace (snd (m w)) = trace w @ [e]" "P e" by blast
  have "trace (snd (m w)) = t0 @ (es @ [e]) \<and> list_all P (es @ [e])"
    using es e by simp
  then show "\<exists>es. trace (snd (m w)) = t0 @ es \<and> list_all P es" by blast
qed

lemma trace_rmtree [simp]: "trace (snd (rmtree p w)) = trace w"
  by (simp add: rmtree_def split: option.splits node.splits)

lemma trace_unlink [simp]: "trace (snd (unlink p w)) = trace w"
  by (simp add: unlink_def split: option.splits node.splits)

lemma trace_mkdir [simp]: "trace (snd (mkdir p w)) = trace w"
  by (simp add: mkdir_def)

lemma trace_read_file [simp]: "trace (snd (read_file p w)) = trace w"
  by (simp add: read_file_def split: option.splits node.splits)

lemma trace_write_file [simp]: "trace (snd (write_file p c w)) = trace w"
  by (simp add: write_file_def Let_def split: option.splits node.splits)

lemma trace_makedirs [simp]: "trace (snd (makedirs p ok w)) = trace w"
  by (simp add: makedirs_def Let_def)

lemma trace_make_archive [simp]: "trace (snd (make_archive E b f r d w)) = trace w"
  by (simp add: make_archive_def split: option.splits sum.splits)

lemma trace_subprocess_run:
  "trace (snd (subprocess_run E argv cwd env w))
     = trace w @ [Subprocess argv cwd (case env of None \<Rightarrow> environ w | Some e \<Rightarrow> e)]"
  by (simp add: subprocess_run_def Let_def split: prod.splits sum.splits)

named_theorems pres

lemmas [pres] = preserves_return preserves_raise preserves_seq preserves_if preserves_if_w
  preserves_for_each preserves_try_finally preserves_except_OSError

lemma pres_rmtree [pres]: "preserves (grown P t0) (rmtree p)"
  by (rule grown_silent) simp

lemma pres_unlink [pres]: "preserves (grown P t0) (unlink p)"
  by (rule grown_silent) simp

lemma pres_mkdir [pres]: "preserves (grown P t0) (mkdir p)"
  by (rule grown_silent) simp

lemma pres_read_file [pres]: "preserves (grown P t0) (read_file p)"
  by (rule grown_silent) simp

lemma pres_write_file [pres]: "preserves (grown P t0) (write_file p c)"
  by (rule grown_silent) simp

lemma pres_makedirs [pres]: "preserves (grown P t0) (makedirs p ok)"
  by (rule grown_silent) simp

lemma pres_make_archive [pres]: "preserves (grown P t0) (make_archive E b f r d)"
  by (rule grown_silent) simp

lemma pres_print [pres]: "P (Print s) \<Longrightarrow> preserves (grown P t0) (py_print s)"
  by (rule grown_emit) (simp add: py_print_def)

lemma pres_warning [pres]: "P (Warning s) \<Longrightarrow> preserves (grown P t0) (mlog_warning s)"
  by (rule grown_emit) (simp add: mlog_warning_def)

lemma pres_subprocess_run:
  "(\<And>v. P (Subprocess argv cwd v)) \<Longrightarrow> preserves (grown P t0) (subprocess_run E argv cwd env)"
  by (rule grown_emit) (simp add: trace_subprocess_run)

lemma pres_subprocess_call [pres]:
  "(\<And>v. P (Subprocess argv cwd v)) \<Longrightarrow> preserves (grown P t0) (subprocess_call E argv cwd env)"
  unfolding subprocess_call_def by (intro pres pres_subprocess_run)

lemma pres_subprocess_check_call [pres]:
  "(\<And>v. P (Subprocess argv cwd v))
     \<Longrightarrow> preserves (grown P t0) (subprocess_check_call E argv cwd env)"
  unfolding subprocess_check_call_def by (intro pres pres_subprocess_run)

lemma pres_subprocess_check_output [pres]:
  "(\<And>v. P (Subprocess argv cwd v))
     \<Longrightarrow> preserves (grown P t0) (subprocess_check_output E argv cwd env)"
  unfolding subprocess_check_output_def by (intro pres pres_subprocess_run)

lemma pres_del_gitfiles [pres]: "preserves (grown P t0) (del_gitfiles d)"
proof -
  have "preserves (grown P t0)
          (\<lambda>w. for_each (\<lambda>f w1. if (isdir (files w1) f \<and> \<not> islink (files w1) f)
                                  then rmtree f w1 else unlink f w1)
                  (glob (files w) (path_join d ''.git*'')) w)"
    by (rule preserves_dep) (intro pres)
  then show ?thesis by (simp add: del_gitfiles_def [abs_def])
qed

lemma pres_process_submodules [pres]:
  assumes "\<And>a c v. P (Subprocess a c v)"
  shows "preserves (grown P t0) (process_submodules E d)"
  unfolding process_submodules_def [abs_def] Let_def
  by (intro pres assms)

subsection \<open>The Git dirty-index check\<close>

lemma pres_dist_script_step [pres]:
  assumes "\<And>s. P (Print s)" "\<And>a c v. P (Subprocess a c v)"
  shows "preserves (grown P t0) (dist_script_step E env d)"
  unfolding dist_script_step_def Let_def by (intro pres assms)

lemma pres_run_dist_scripts [pres]:
  assumes "\<And>s. P (Print s)" "\<And>a c v. P (Subprocess a c v)"
  shows "preserves (grown P t0) (run_dist_scripts E root scripts)"
  unfolding preserves_def
proof (intro allI impI)
  fix w :: world
  assume g: "grown P t0 w"
  have "preserves (grown P t0)
          (for_each (dist_script_step E (AList.update ''MESON_DIST_ROOT'' root (environ w))) scripts)"
    by (intro preserves_for_each pres_dist_script_step assms)
  from preservesD [OF this g] g
  show "grown P t0 (snd (run_dist_scripts E root scripts w))"
    by (simp add: run_dist_scripts_def Let_def raise_def)
qed

lemma pres_git_archive_loop [pres]:
  "preserves (grown P t0) (git_archive_loop E distdir dist_sub dist_name archives acc)"
proof (induction archives arbitrary: acc)
  case Nil
  show ?case by (simp add: preserves_return)
next
  case (Cons a rest)
  show ?case
  proof (cases "map_of archive_extension a")
    case None
    then show ?thesis by (simp add: preserves_raise)
  next
    case (Some e)
    have "preserves (grown P t0)
            (seq (make_archive E distdir a dist_sub dist_name)
               (\<lambda>u. git_archive_loop E distdir dist_sub dist_name rest (acc @ [distdir @ e])))"
      by (intro preserves_seq pres_make_archive Cons)
    then show ?thesis using Some by (simp add: Let_def)
  qed
qed

lemma snd_seq_Inr: "m w = (Inr x, w1) \<Longrightarrow> snd (seq m k w) = snd (k x w1)"
  by (simp add: seq_def)

lemma filter_grown:
  "grown (\<lambda>e. \<not> Q e) t0 w \<Longrightarrow> filter Q (trace w) = filter Q t0"
  by (auto simp: grown_def list_all_iff filter_empty_conv)

lemma git_have_dirty_index_result:
  assumes "fst (subproc E (tick w) [''git'', ''-C'', src_root, ''diff-index'', ''--quiet'', ''HEAD'']
                  None (environ w) (files w)) = Inr (rc, out)"
  shows "\<exists>w1. git_have_dirty_index E src_root w = (Inr (rc = 1), w1)
            \<and> filter is_warning (trace w1) = filter is_warning (trace w)"
proof -
  obtain fs1 where
    "subproc E (tick w) [''git'', ''-C'', src_root, ''diff-index'', ''--quiet'', ''HEAD'']
        None (environ w) (files w) = (Inr (rc, out), fs1)"
    using assms by (metis prod.collapse)
  then show ?thesis
    by (simp add: git_have_dirty_index_def subprocess_call_def subprocess_run_def seq_def
        return_def Let_def is_warning_def)
qed

text \<open>
  Claim C9. When \<open>git diff-index --quiet HEAD\<close> exits with status \<open>rc\<close>, the dirty-index
  check returns \<open>rc = 1\<close>, and over the whole of \<open>create_dist_git\<close> (whatever happens
  later in it) the warnings added to the trace are exactly the uncommitted-changes warning
  when \<open>rc = 1\<close> and none for every other status, 128 included.
\<close>

theorem git_dirty_index_warning:
  assumes "fst (subproc E (tick w) [''git'', ''-C'', src_root, ''diff-index'', ''--quiet'', ''HEAD'']
                  None (environ w) (files w)) = Inr (rc, out)"
  shows "fst (git_have_dirty_index E src_root w) = Inr (rc = 1)
     \<and> filter is_warning
          (trace (snd (create_dist_git E dist_name archives src_root bld_root dist_sub scripts w)))
        = filter is_warning (trace w) @ (if rc = 1 then [Warning uncommitted_warning] else [])"
proof -
  from git_have_dirty_index_result [OF assms] obtain w1 where
    w1: "git_have_dirty_index E src_root w = (Inr (rc = 1), w1)"
    and t1: "filter is_warning (trace w1) = filter is_warning (trace w)" by blast
  define w2 where "w2 = snd ((if rc = 1 then mlog_warning uncommitted_warning else return ()) w1)"
  have step2: "(if rc = 1 then mlog_warning uncommitted_warning else return ()) w1 = (Inr (), w2)"
    by (simp add: w2_def mlog_warning_def return_def)
  have t2: "filter is_warning (trace w2)
      = filter is_warning (trace w) @ (if rc = 1 then [Warning uncommitted_warning] else [])"
    by (simp add: w2_def mlog_warning_def return_def t1 is_warning_def)
  have "grown (\<lambda>e. \<not> is_warning e) (trace w2)
          (snd (create_dist_git E dist_name archives src_root bld_root dist_sub scripts w))"
    unfolding create_dist_git_def
    apply (subst snd_seq_Inr [where m = "git_have_dirty_index E src_root" and w = w, OF w1])
    apply (subst snd_seq_Inr
        [where m = "if rc = 1 then mlog_warning uncommitted_warning else return ()" and w = w1,
         OF step2])
    apply (rule preservesD [OF _ grown_refl])
    unfolding Let_def
    apply (intro pres)
    apply (simp_all add: is_warning_def)
    done
  from filter_grown [OF this] t2 w1 show ?thesis by simp
qed

theorem git_dirty_index_warning_witness:
  "fst (git_have_dirty_index (status_ext 128) ''/src'' hash_world) = Inr False
   \<and> filter is_warning (trace (snd (create_dist_git (status_ext 128) ''p-1'' [''zip''] ''/src''
         ''/b'' ''/b/meson-dist'' [] hash_world))) = []
   \<and> fst (git_have_dirty_index (status_ext 1) ''/src'' hash_world) = Inr True
   \<and> filter is_warning (trace (snd (create_dist_git (status_ext 1) ''p-1'' [''zip''] ''/src''
         ''/b'' ''/b/meson-dist'' [] hash_world))) = [Warning uncommitted_warning]"
  using git_dirty_index_warning [of "status_ext 128" hash_world "''/src''" 128 "[]"
          "''p-1''" "[''zip'']" "''/b''" "''/b/meson-dist''" "[]"]
        git_dirty_index_warning [of "status_ext 1" hash_world "''/src''" 1 "[]"
          "''p-1''" "[''zip'']" "''/b''" "''/b/meson-dist''" "[]"]
  by (simp add: status_ext_def hash_world_def)

end
